theory Spec2Isabelle
  imports Complex_Main "HOL-Library.Log_Nat"
begin

section \<open>The EWMA filter of topic\_filter.py\<close>

text \<open>
  The class \<open>EWMA\<close> has two attributes: the coefficient \<open>self.a\<close> and the stored
  \<open>self.average\<close>, which is Python's \<open>None\<close> until a sample has been seen. Samples are
  the \<open>data\<close> field of a \<open>std_msgs/Float64\<close> message. The filter is modelled
  twice. In this first model numbers are exact reals: it serves every property that
  uses the update expression as it is written or at values that doubles hold exactly.
  The second model, further down, computes the same update in binary64 with its
  rounding, for the one property whose truth depends on rounding.
\<close>

record EWMA =
  self_a :: real
  self_average :: "real option"

text \<open>\<open>__init__\<close>: stores its argument and sets the average to \<open>None\<close>. There is no check.\<close>

definition EWMA_init :: "real \<Rightarrow> EWMA" where
  "EWMA_init a = \<lparr>self_a = a, self_average = None\<rparr>"

text \<open>
  \<open>__call__\<close>: the pair of the value handed back to the caller and the mutated object.
  The first branch ends in a bare \<open>return\<close> and the second falls off the end of the
  body, so the value handed back is Python's \<open>None\<close> on both paths; it is modelled as
  \<open>None :: real option\<close>, a type that has room for the float the docstring announces.
\<close>

definition EWMA_call :: "EWMA \<Rightarrow> real \<Rightarrow> real option \<times> EWMA" where
  "EWMA_call self sample =
     (case self_average self of
        None \<Rightarrow> (None, self\<lparr>self_average := Some sample\<rparr>)
      | Some average \<Rightarrow>
          (None, self\<lparr>self_average := Some (self_a self * sample + (1 - self_a self) * average)\<rparr>))"

text \<open>Calling one filter object on a sequence of samples, in order.\<close>

fun EWMA_calls :: "EWMA \<Rightarrow> real list \<Rightarrow> EWMA" where
  "EWMA_calls self [] = self"
| "EWMA_calls self (sample # samples) = EWMA_calls (snd (EWMA_call self sample)) samples"

text \<open>
  The recurrence as the specification words it: \<open>a_1 = x_1\<close> and
  \<open>a_i = alpha * x_i + (1 - alpha) * a_(i-1)\<close>. Positions count from 0 here, so
  \<open>spec_a alpha xs i\<close> is the specification's \<open>a_(i+1)\<close>.
\<close>

fun spec_a :: "real \<Rightarrow> real list \<Rightarrow> nat \<Rightarrow> real" where
  "spec_a alpha xs 0 = xs ! 0"
| "spec_a alpha xs (Suc i) = alpha * (xs ! Suc i) + (1 - alpha) * spec_a alpha xs i"

section \<open>The relay: publishers, subscribers and their callbacks\<close>

text \<open>
  \<open>rospy\<close> is an external library. What the program does with it is kept in one state
  record: the lines given to \<open>rospy.loginfo\<close>, the publishers and subscribers registered
  so far (in registration order), the \<open>EWMA\<close> objects alive, and the messages handed to
  \<open>publish\<close> so far, each with the name of the topic it went to. An \<open>EWMA\<close> object is
  mutable and is reached through the closure that captured it, so the objects live in a
  heap, a list in which the address of an object is its position.
\<close>

datatype topic_type = Float64

record msg =
  msg_type :: topic_type
  data :: real

record Publisher =
  pub_name :: string
  pub_data_class :: topic_type
  pub_queue_size :: nat

text \<open>
  The closure \<open>callback\<close> made by \<open>filter_topic\<close>, as the variables it captures:
  \<open>f\<close> (the address of its filter object), \<open>topic_type\<close> and \<open>pub\<close>.
\<close>

record callback_env =
  cb_f :: nat
  cb_topic_type :: topic_type
  cb_pub :: Publisher

record Subscriber =
  sub_name :: string
  sub_data_class :: topic_type
  sub_callback :: callback_env

record ros =
  loginfo :: "string list"
  publishers :: "Publisher list"
  subscribers :: "Subscriber list"
  heap :: "EWMA list"
  published :: "(string \<times> msg) list"

text \<open>The state after \<open>rospy.init_node\<close>: nothing logged, registered, allocated or published.\<close>

definition rospy_init_node :: ros where
  "rospy_init_node =
     \<lparr>loginfo = [], publishers = [], subscribers = [], heap = [], published = []\<rparr>"

definition rospy_loginfo :: "string \<Rightarrow> ros \<Rightarrow> ros" where
  "rospy_loginfo line s = s\<lparr>loginfo := loginfo s @ [line]\<rparr>"

definition rospy_Publisher :: "string \<Rightarrow> topic_type \<Rightarrow> nat \<Rightarrow> ros \<Rightarrow> Publisher \<times> ros" where
  "rospy_Publisher name data_class queue_size s =
     (let pub = \<lparr>pub_name = name, pub_data_class = data_class, pub_queue_size = queue_size\<rparr>
      in (pub, s\<lparr>publishers := publishers s @ [pub]\<rparr>))"

definition rospy_Subscriber ::
  "string \<Rightarrow> topic_type \<Rightarrow> callback_env \<Rightarrow> ros \<Rightarrow> Subscriber \<times> ros" where
  "rospy_Subscriber name data_class cb s =
     (let sub = \<lparr>sub_name = name, sub_data_class = data_class, sub_callback = cb\<rparr>
      in (sub, s\<lparr>subscribers := subscribers s @ [sub]\<rparr>))"

text \<open>\<open>pub.publish(dest_item)\<close>: the message goes out on the publisher's topic.\<close>

definition Publisher_publish :: "Publisher \<Rightarrow> msg \<Rightarrow> ros \<Rightarrow> ros" where
  "Publisher_publish pub dest_item s = s\<lparr>published := published s @ [(pub_name pub, dest_item)]\<rparr>"

text \<open>\<open>EWMA(a)\<close> as an allocation: the new object gets the next free address.\<close>

definition new_EWMA :: "real \<Rightarrow> ros \<Rightarrow> nat \<times> ros" where
  "new_EWMA a s = (length (heap s), s\<lparr>heap := heap s @ [EWMA_init a]\<rparr>)"

text \<open>
  Two situations have no counterpart in a run of the Python program and are kept as error
  values so that the model stays total without hiding them: a closure whose filter
  address is not allocated, and a filter whose average is still \<open>None\<close> right after it
  was called (\<open>topic_type(None)\<close> is not a message that can be sent). Lemmas below show
  that neither is reached from the states the program builds.
\<close>

datatype error = NoSuchObject nat | AverageIsNone

text \<open>
  The body of \<open>callback\<close>: call the filter on \<open>src_item.data\<close> (the value handed back
  is dropped), read \<open>f.average\<close>, wrap it with \<open>topic_type\<close> and publish it on \<open>pub\<close>.
\<close>

definition callback :: "callback_env \<Rightarrow> msg \<Rightarrow> ros \<Rightarrow> error + ros" where
  "callback env src_item s =
     (if cb_f env < length (heap s) then
        (let (_, f) = EWMA_call (heap s ! cb_f env) (data src_item);
             s1 = s\<lparr>heap := (heap s)[cb_f env := f]\<rparr>
         in case self_average f of
              None \<Rightarrow> Inl AverageIsNone
            | Some average \<Rightarrow>
                Inr (Publisher_publish (cb_pub env)
                       \<lparr>msg_type = cb_topic_type env, data = average\<rparr> s1))
      else Inl (NoSuchObject (cb_f env)))"

text \<open>
  \<open>filter_topic\<close>: log, make the publisher, make the filter \<open>EWMA(0.3)\<close> (the
  literal is the real number 3/10 here), make the closure and subscribe it. The pair
  \<open>(sub, pub)\<close> is returned.
\<close>

definition filter_topic ::
  "string \<Rightarrow> string \<Rightarrow> topic_type \<Rightarrow> ros \<Rightarrow> (Subscriber \<times> Publisher) \<times> ros" where
  "filter_topic src_topic dest_topic topic_type s =
     (let s1 = rospy_loginfo (''Filtering topic '' @ src_topic @ '' to topic '' @ dest_topic) s;
          (pub, s2) = rospy_Publisher dest_topic topic_type 10 s1;
          (f, s3) = new_EWMA (3/10) s2;
          (sub, s4) = rospy_Subscriber src_topic topic_type
                        \<lparr>cb_f = f, cb_topic_type = topic_type, cb_pub = pub\<rparr> s3
      in ((sub, pub), s4))"

text \<open>
  \<open>filter_all_variable_topics\<close>: the loop over the variables. The pair that
  \<open>filter_topic\<close> returns is dropped, and the function has no \<open>return\<close> statement, so
  it hands back Python's \<open>None\<close>; the result type has room for a collection of
  (subscriber, publisher) pairs.
\<close>

fun filter_all_variable_topics ::
  "string list \<Rightarrow> ros \<Rightarrow> (Subscriber \<times> Publisher) list option \<times> ros" where
  "filter_all_variable_topics [] s = (None, s)"
| "filter_all_variable_topics (env_var # variables) s =
     (let (_, s1) = filter_topic (env_var @ ''/raw'') (env_var @ ''/measured'') Float64 s
      in filter_all_variable_topics variables s1)"

text \<open>
  The bus side of a subscription: a message that arrives on a topic is given to the
  callback of every subscriber registered under that name, in registration order.
  \<open>rospy_spin\<close> handles a finite sequence of arrivals, each a topic name and a message.
\<close>

fun run_callbacks :: "Subscriber list \<Rightarrow> msg \<Rightarrow> ros \<Rightarrow> error + ros" where
  "run_callbacks [] src_item s = Inr s"
| "run_callbacks (sub # subs) src_item s =
     (case callback (sub_callback sub) src_item s of
        Inl e \<Rightarrow> Inl e
      | Inr s1 \<Rightarrow> run_callbacks subs src_item s1)"

definition receive :: "string \<Rightarrow> msg \<Rightarrow> ros \<Rightarrow> error + ros" where
  "receive name src_item s =
     run_callbacks (filter (\<lambda>sub. sub_name sub = name) (subscribers s)) src_item s"

fun rospy_spin :: "(string \<times> msg) list \<Rightarrow> ros \<Rightarrow> error + ros" where
  "rospy_spin [] s = Inr s"
| "rospy_spin ((name, src_item) # arrivals) s =
     (case receive name src_item s of
        Inl e \<Rightarrow> Inl e
      | Inr s1 \<Rightarrow> rospy_spin arrivals s1)"

text \<open>
  What \<open>filter_topic\<close> registers for a variable: the publisher on \<open>V/measured\<close> and the
  subscriber on \<open>V/raw\<close> whose closure holds the filter at address \<open>addr\<close>. These two
  name the results in the statements below; the program does not contain them.
\<close>

definition measured_Publisher :: "string \<Rightarrow> Publisher" where
  "measured_Publisher env_var =
     \<lparr>pub_name = env_var @ ''/measured'', pub_data_class = Float64, pub_queue_size = 10\<rparr>"

definition raw_Subscriber :: "nat \<Rightarrow> string \<Rightarrow> Subscriber" where
  "raw_Subscriber addr env_var =
     \<lparr>sub_name = env_var @ ''/raw'', sub_data_class = Float64,
      sub_callback = \<lparr>cb_f = addr, cb_topic_type = Float64, cb_pub = measured_Publisher env_var\<rparr>\<rparr>"

text \<open>
  The shape of the states the program builds from \<open>rospy_init_node\<close>: the closure of
  the \<open>i\<close>-th subscriber holds the filter at address \<open>i\<close>, and there are as many
  filters as subscribers. It is an invariant used in the proofs, not part of the program.
\<close>

definition wired :: "ros \<Rightarrow> bool" where
  "wired s = (map (cb_f \<circ> sub_callback) (subscribers s) = [0..<length (heap s)])"

section \<open>The update of the filter in binary64\<close>

text \<open>
  A Python \<open>float\<close> is an IEEE 754 binary64 number. A finite one is written here as a
  pair \<open>(m, e)\<close> of integers that stands for \<open>m * 2^e\<close>; \<open>dval\<close> is the number it
  stands for. Several pairs stand for the same number, so doubles are compared through
  \<open>dval\<close>. The literal \<open>0.3\<close> is the pair \<open>(5404319552844595, - 54)\<close> and \<open>0.1\<close> is
  \<open>(7205759403792794, - 56)\<close>.
\<close>

type_synonym double = "int \<times> int"

definition dval :: "double \<Rightarrow> real" where
  "dval d = of_int (fst d) * 2 powi (snd d)"

text \<open>
  Rounding an exact result \<open>m * 2^e\<close> to 53 significant bits, to nearest, ties to the
  even significand: with \<open>n\<close> the number of bits of \<open>\<bar>m\<bar>\<close>, the low \<open>k = n - 53\<close> bits
  are dropped and the rest goes up by one when the dropped part is above one half, or
  is one half and the rest is odd.
\<close>

definition nearest53 :: "int \<times> int \<Rightarrow> double" where
  "nearest53 x =
     (let m = fst x; e = snd x; n = bitlen \<bar>m\<bar> in
      if n \<le> 53 then (m, e)
      else
        (let k = nat (n - 53);
             q = \<bar>m\<bar> div 2 ^ k;
             r = \<bar>m\<bar> mod 2 ^ k;
             half = 2 ^ (k - 1);
             q' = (if half < r \<or> (r = half \<and> odd q) then q + 1 else q)
         in (sgn m * q', e + int k)))"

text \<open>
  Zero, or a magnitude from \<open>2^(-1022)\<close> up to but excluding \<open>2^1024\<close>: the range in
  which binary64 keeps 53 significant bits. A rounded result outside it would be
  subnormal or infinite; the model does not compute those and says so with \<open>None\<close>.
\<close>

definition normal_range :: "double \<Rightarrow> bool" where
  "normal_range d =
     (fst d = 0 \<or> (- 1022 \<le> bitlen \<bar>fst d\<bar> - 1 + snd d \<and> bitlen \<bar>fst d\<bar> + snd d \<le> 1024))"

definition is_double :: "double \<Rightarrow> bool" where
  "is_double d = (\<bar>fst d\<bar> < 2 ^ 53 \<and> normal_range d)"

definition fl :: "int \<times> int \<Rightarrow> double option" where
  "fl x = (let d = nearest53 x in if normal_range d then Some d else None)"

text \<open>The operations \<open>*\<close>, \<open>+\<close> and \<open>-\<close> on floats: the exact result, rounded once.\<close>

definition double_mul :: "double \<Rightarrow> double \<Rightarrow> double option" where
  "double_mul x y = fl (fst x * fst y, snd x + snd y)"

definition double_add :: "double \<Rightarrow> double \<Rightarrow> double option" where
  "double_add x y =
     (let e = min (snd x) (snd y)
      in fl (fst x * 2 ^ nat (snd x - e) + fst y * 2 ^ nat (snd y - e), e))"

definition double_sub :: "double \<Rightarrow> double \<Rightarrow> double option" where
  "double_sub x y =
     (let e = min (snd x) (snd y)
      in fl (fst x * 2 ^ nat (snd x - e) - fst y * 2 ^ nat (snd y - e), e))"

text \<open>
  The class and \<open>__call__\<close> once more, with float attributes. The expression
  \<open>self.a * sample + (1 - self.a) * self.average\<close> is evaluated as Python does: the
  product \<open>self.a * sample\<close>, the difference \<open>1 - self.a\<close> (the integer 1 becomes
  the float 1.0), the second product, then the sum, each rounded. The value handed back
  is \<open>None\<close> as before. \<open>Inl NotNormal\<close> means that an intermediate result left the
  normal range.
\<close>

record EWMA64 =
  self_a64 :: double
  self_average64 :: "double option"

datatype fp_error = NotNormal

definition EWMA64_call :: "EWMA64 \<Rightarrow> double \<Rightarrow> fp_error + (double option \<times> EWMA64)" where
  "EWMA64_call self sample =
     (case self_average64 self of
        None \<Rightarrow> Inr (None, self\<lparr>self_average64 := Some sample\<rparr>)
      | Some average \<Rightarrow>
          (case double_mul (self_a64 self) sample of
             None \<Rightarrow> Inl NotNormal
           | Some t1 \<Rightarrow>
          (case double_sub (1, 0) (self_a64 self) of
             None \<Rightarrow> Inl NotNormal
           | Some b \<Rightarrow>
          (case double_mul b average of
             None \<Rightarrow> Inl NotNormal
           | Some t2 \<Rightarrow>
          (case double_add t1 t2 of
             None \<Rightarrow> Inl NotNormal
           | Some r \<Rightarrow> Inr (None, self\<lparr>self_average64 := Some r\<rparr>))))))"

text \<open>The largest relative error of one rounding to nearest with 53 bits.\<close>

definition unit_roundoff :: real where
  "unit_roundoff = 1 / 2 ^ 53"

section \<open>Properties of the filter\<close>

lemma EWMA_init_fields [simp]:
  "self_a (EWMA_init a) = a" "self_average (EWMA_init a) = None"
  by (simp_all add: EWMA_init_def)

lemma EWMA_call_a [simp]: "self_a (snd (EWMA_call self sample)) = self_a self"
  by (simp add: EWMA_call_def split: option.split)

lemma EWMA_call_average_None [simp]:
  "self_average self = None \<Longrightarrow> self_average (snd (EWMA_call self sample)) = Some sample"
  by (simp add: EWMA_call_def)

lemma EWMA_call_average_Some [simp]:
  "self_average self = Some v \<Longrightarrow>
   self_average (snd (EWMA_call self sample)) = Some (self_a self * sample + (1 - self_a self) * v)"
  by (simp add: EWMA_call_def)

lemma EWMA_call_defined: "\<exists>v. self_average (snd (EWMA_call self sample)) = Some v"
  by (cases "self_average self") simp_all

lemma EWMA_calls_snoc:
  "EWMA_calls self (samples @ [sample]) = snd (EWMA_call (EWMA_calls self samples) sample)"
  by (induction samples arbitrary: self) simp_all

lemma EWMA_calls_a [simp]: "self_a (EWMA_calls self samples) = self_a self"
  by (induction samples arbitrary: self) simp_all

lemma EWMA_calls_defined:
  "samples \<noteq> [] \<Longrightarrow> \<exists>v. self_average (EWMA_calls self samples) = Some v"
proof (induction samples rule: rev_induct)
  case Nil
  then show ?case by simp
next
  case (snoc sample samples)
  show ?case
    unfolding EWMA_calls_snoc by (rule EWMA_call_defined)
qed

lemma spec_a_append: "i < length xs \<Longrightarrow> spec_a alpha (xs @ ys) i = spec_a alpha xs i"
  by (induction i) (simp_all add: nth_append)

text \<open>
  C1 (the code departs from its docstring): \<open>__call__\<close> announces
  ``:return: The latest moving average data point'', and the claim repeats it, but the
  method hands back \<open>None\<close> on the first call and on every later one; only the attribute
  \<open>average\<close> holds the value. With \<open>EWMA(0.3)\<close> the calls on 10 and then 20 both hand
  back \<open>None\<close> while the attribute becomes 10 and then 13.
\<close>

theorem EWMA_call_hands_back_None:
  "fst (EWMA_call (EWMA_init (3/10)) 10) = None
   \<and> self_average (snd (EWMA_call (EWMA_init (3/10)) 10)) = Some 10
   \<and> fst (EWMA_call (snd (EWMA_call (EWMA_init (3/10)) 10)) 20) = None
   \<and> self_average (snd (EWMA_call (snd (EWMA_call (EWMA_init (3/10)) 10)) 20)) = Some 13"
  by (simp add: EWMA_call_def EWMA_init_def)

text \<open>
  C3: after a fresh filter with coefficient \<open>alpha\<close> has been fed the samples
  \<open>x_1 .. x_n\<close> in order, its stored average is the last term \<open>a_n\<close> of the
  specification's recurrence. The proof needs no bound on \<open>alpha\<close>, so the statement
  covers every \<open>alpha\<close> in (0,1].
\<close>

theorem EWMA_recurrence:
  "xs \<noteq> [] \<Longrightarrow>
   self_average (EWMA_calls (EWMA_init alpha) xs) = Some (spec_a alpha xs (length xs - 1))"
proof (induction xs rule: rev_nonempty_induct)
  case (single x)
  show ?case by (simp add: EWMA_init_def)
next
  case (snoc x xs)
  from snoc.hyps obtain n where n: "length xs = Suc n"
    by (cases xs) simp_all
  have "spec_a alpha (xs @ [x]) n = spec_a alpha xs n"
    using n by (simp add: spec_a_append)
  then show ?case
    using snoc.IH n by (simp add: EWMA_calls_snoc nth_append)
qed

theorem EWMA_recurrence_witness:
  "[10, 20, 20] \<noteq> ([] :: real list)
   \<and> self_average (EWMA_calls (EWMA_init (3/10)) [10, 20, 20]) = Some (151/10)"
  using EWMA_recurrence [of "[10, 20, 20]" "3/10"]
  by (simp add: numeral_3_eq_3 numeral_2_eq_2)

text \<open>
  C6: the stored average of a filter is \<open>None\<close> when the filter is built and stays so
  exactly as long as no sample has been processed; one call on a sample, in whatever
  state the filter is, leaves a defined real number there.
\<close>

theorem EWMA_average_None_iff:
  "self_average (EWMA_init a) = None
   \<and> ((self_average (EWMA_calls (EWMA_init a) samples) = None) = (samples = []))
   \<and> (\<exists>v. self_average (snd (EWMA_call self sample)) = Some v)"
proof -
  have "(self_average (EWMA_calls (EWMA_init a) samples) = None) = (samples = [])"
  proof (cases "samples = []")
    case True
    then show ?thesis by (simp add: EWMA_init_def)
  next
    case False
    then show ?thesis using EWMA_calls_defined [of samples "EWMA_init a"] by auto
  qed
  then show ?thesis
    using EWMA_call_defined [of self sample] by (simp add: EWMA_init_def)
qed

text \<open>
  C9: construction has no failure path and checks nothing: whatever real \<open>a\<close> is
  given (0, a negative number and a number above 1 included), the object holds
  \<open>a\<close> and no average, the coefficient is still \<open>a\<close> after any number of updates,
  and the second update computes with that very \<open>a\<close>.
\<close>

theorem EWMA_init_stores_any_coefficient:
  "self_a (EWMA_init a) = a
   \<and> self_average (EWMA_init a) = None
   \<and> self_a (EWMA_calls (EWMA_init a) samples) = a
   \<and> self_average (EWMA_calls (EWMA_init a) [x, y]) = Some (a * y + (1 - a) * x)
   \<and> self_a (EWMA_init 0) = 0 \<and> self_a (EWMA_init (- 1)) = - 1 \<and> self_a (EWMA_init 2) = 2"
  by (simp add: EWMA_init_def)

section \<open>Properties of the relay\<close>

lemmas run_defs = filter_topic_def rospy_loginfo_def rospy_Publisher_def new_EWMA_def
  rospy_Subscriber_def rospy_init_node_def raw_Subscriber_def measured_Publisher_def
  receive_def callback_def Publisher_publish_def EWMA_call_def EWMA_init_def Let_def

lemma init_fields [simp]:
  "loginfo rospy_init_node = []" "publishers rospy_init_node = []"
  "subscribers rospy_init_node = []" "heap rospy_init_node = []"
  "published rospy_init_node = []"
  by (simp_all add: rospy_init_node_def)

lemma raw_Subscriber_fields [simp]:
  "sub_name (raw_Subscriber addr v) = v @ ''/raw''"
  "sub_data_class (raw_Subscriber addr v) = Float64"
  "cb_f (sub_callback (raw_Subscriber addr v)) = addr"
  "cb_topic_type (sub_callback (raw_Subscriber addr v)) = Float64"
  "cb_pub (sub_callback (raw_Subscriber addr v)) = measured_Publisher v"
  by (simp_all add: raw_Subscriber_def)

lemma measured_Publisher_fields [simp]:
  "pub_name (measured_Publisher v) = v @ ''/measured''"
  "pub_data_class (measured_Publisher v) = Float64"
  "pub_queue_size (measured_Publisher v) = 10"
  by (simp_all add: measured_Publisher_def)

subsection \<open>What the registration functions do to the state\<close>

lemma filter_topic_eq:
  "filter_topic src_topic dest_topic topic_type s =
     (let pub = \<lparr>pub_name = dest_topic, pub_data_class = topic_type, pub_queue_size = 10\<rparr>;
          sub = \<lparr>sub_name = src_topic, sub_data_class = topic_type,
                 sub_callback = \<lparr>cb_f = length (heap s), cb_topic_type = topic_type, cb_pub = pub\<rparr>\<rparr>
      in ((sub, pub),
          s\<lparr>loginfo := loginfo s @ [''Filtering topic '' @ src_topic @ '' to topic '' @ dest_topic],
            publishers := publishers s @ [pub],
            subscribers := subscribers s @ [sub],
            heap := heap s @ [EWMA_init (3/10)]\<rparr>))"
  by (simp add: filter_topic_def rospy_loginfo_def rospy_Publisher_def new_EWMA_def
      rospy_Subscriber_def Let_def)

lemma filter_all_variable_topics_eq:
  "filter_all_variable_topics variables s =
     (None,
      s\<lparr>loginfo := loginfo s @
           map (\<lambda>v. ''Filtering topic '' @ (v @ ''/raw'') @ '' to topic '' @ (v @ ''/measured'')) variables,
        publishers := publishers s @ map measured_Publisher variables,
        subscribers := subscribers s @
           map (\<lambda>(addr, v). raw_Subscriber addr v) (enumerate (length (heap s)) variables),
        heap := heap s @ replicate (length variables) (EWMA_init (3/10))\<rparr>)"
proof (induction variables arbitrary: s)
  case Nil
  show ?case by simp
next
  case (Cons v variables)
  show ?case
    by (simp add: Cons.IH filter_topic_eq Let_def measured_Publisher_def raw_Subscriber_def
        replicate_append_same)
qed

lemma bound_fields:
  "fst (filter_all_variable_topics variables s) = None"
  "loginfo (snd (filter_all_variable_topics variables s)) = loginfo s @
     map (\<lambda>v. ''Filtering topic '' @ (v @ ''/raw'') @ '' to topic '' @ (v @ ''/measured'')) variables"
  "publishers (snd (filter_all_variable_topics variables s)) =
     publishers s @ map measured_Publisher variables"
  "subscribers (snd (filter_all_variable_topics variables s)) = subscribers s @
     map (\<lambda>(addr, v). raw_Subscriber addr v) (enumerate (length (heap s)) variables)"
  "heap (snd (filter_all_variable_topics variables s)) =
     heap s @ replicate (length variables) (EWMA_init (3/10))"
  "published (snd (filter_all_variable_topics variables s)) = published s"
  by (simp_all add: filter_all_variable_topics_eq)

lemma bound_addrs:
  "map (cb_f \<circ> sub_callback) (subscribers (snd (filter_all_variable_topics variables rospy_init_node)))
     = [0..<length variables]"
proof -
  have "map (cb_f \<circ> sub_callback) (map (\<lambda>(addr, v). raw_Subscriber addr v) (enumerate 0 variables))
        = map fst (enumerate 0 variables)"
    by (simp add: case_prod_unfold comp_def)
  then show ?thesis
    by (simp add: bound_fields)
qed

lemma bound_wired: "wired (snd (filter_all_variable_topics variables rospy_init_node))"
  using bound_addrs [of variables] by (simp add: wired_def bound_fields)

lemma bound_subscriber_nth:
  "i < length variables \<Longrightarrow>
   subscribers (snd (filter_all_variable_topics variables rospy_init_node)) ! i
     = raw_Subscriber i (variables ! i)"
  by (simp add: bound_fields nth_enumerate_eq)

subsection \<open>One call of a callback\<close>

lemma callback_eq:
  assumes "cb_f env < length (heap s)"
  shows "\<exists>average.
           self_average (snd (EWMA_call (heap s ! cb_f env) (data src_item))) = Some average
           \<and> callback env src_item s =
               Inr (s\<lparr>heap := (heap s)[cb_f env := snd (EWMA_call (heap s ! cb_f env) (data src_item))],
                      published := published s @
                        [(pub_name (cb_pub env),
                          \<lparr>msg_type = cb_topic_type env, data = average\<rparr>)]\<rparr>)"
proof -
  obtain average where
    "self_average (snd (EWMA_call (heap s ! cb_f env) (data src_item))) = Some average"
    using EWMA_call_defined by blast
  then show ?thesis
    using assms by (auto simp add: callback_def Publisher_publish_def split: prod.split)
qed

lemma callback_frame:
  "callback env src_item s = Inr s' \<Longrightarrow> j \<noteq> cb_f env \<Longrightarrow> heap s' ! j = heap s ! j"
  by (auto simp add: callback_def Publisher_publish_def split: if_splits prod.splits option.splits)

subsection \<open>Arrivals: every filter sees the samples of its own topic, in order\<close>

lemma run_callbacks_eq:
  assumes "\<forall>sub \<in> set subs. cb_f (sub_callback sub) < length (heap s)"
      and "distinct (map (cb_f \<circ> sub_callback) subs)"
  shows "\<exists>s'. run_callbacks subs src_item s = Inr s'
           \<and> loginfo s' = loginfo s \<and> publishers s' = publishers s
           \<and> subscribers s' = subscribers s
           \<and> length (heap s') = length (heap s)
           \<and> (\<forall>j. heap s' ! j =
                 (if j \<in> (cb_f \<circ> sub_callback) ` set subs
                  then snd (EWMA_call (heap s ! j) (data src_item)) else heap s ! j))"
  using assms
proof (induction subs arbitrary: s)
  case Nil
  show ?case by simp
next
  case (Cons sub subs)
  let ?a = "cb_f (sub_callback sub)"
  have a: "?a < length (heap s)"
    using Cons.prems(1) by simp
  from callback_eq [OF a, of src_item] obtain s1 where step:
    "callback (sub_callback sub) src_item s = Inr s1"
    "loginfo s1 = loginfo s" "publishers s1 = publishers s" "subscribers s1 = subscribers s"
    "heap s1 = (heap s)[?a := snd (EWMA_call (heap s ! ?a) (data src_item))]"
    by auto
  have fresh: "\<forall>sub' \<in> set subs. ?a \<noteq> cb_f (sub_callback sub')"
    using Cons.prems(2) by (auto simp: image_iff)
  have "\<forall>sub' \<in> set subs. cb_f (sub_callback sub') < length (heap s1)"
    using Cons.prems(1) step(5) by simp
  moreover have "distinct (map (cb_f \<circ> sub_callback) subs)"
    using Cons.prems(2) by (simp add: comp_def)
  ultimately obtain s' where s':
    "run_callbacks subs src_item s1 = Inr s'"
    "loginfo s' = loginfo s1" "publishers s' = publishers s1"
    "subscribers s' = subscribers s1" "length (heap s') = length (heap s1)"
    "\<forall>j. heap s' ! j =
       (if j \<in> (cb_f \<circ> sub_callback) ` set subs
        then snd (EWMA_call (heap s1 ! j) (data src_item)) else heap s1 ! j)"
    using Cons.IH [of s1] by blast
  have cells: "\<forall>j. heap s' ! j =
       (if j \<in> (cb_f \<circ> sub_callback) ` set (sub # subs)
        then snd (EWMA_call (heap s ! j) (data src_item)) else heap s ! j)"
  proof
    fix j
    show "heap s' ! j =
       (if j \<in> (cb_f \<circ> sub_callback) ` set (sub # subs)
        then snd (EWMA_call (heap s ! j) (data src_item)) else heap s ! j)"
    proof (cases "j = ?a")
      case True
      then have "j \<notin> (cb_f \<circ> sub_callback) ` set subs"
        using fresh by auto
      then show ?thesis using s'(6) True a step(5) by simp
    next
      case False
      then show ?thesis using s'(6) step(5) by simp
    qed
  qed
  show ?case
    using step s'(1-5) cells by simp
qed

lemma wired_length: "wired s \<Longrightarrow> length (subscribers s) = length (heap s)"
  unfolding wired_def by (metis length_map length_upt minus_nat.diff_0)

lemma wired_nth:
  assumes "wired s" and "i < length (heap s)"
  shows "cb_f (sub_callback (subscribers s ! i)) = i"
proof -
  have "i < length (subscribers s)"
    using wired_length [OF assms(1)] assms(2) by simp
  then have "map (cb_f \<circ> sub_callback) (subscribers s) ! i = cb_f (sub_callback (subscribers s ! i))"
    by simp
  then show ?thesis
    using assms unfolding wired_def by simp
qed

lemma wired_addr_iff:
  assumes "wired s" and "i < length (heap s)"
  shows "i \<in> (cb_f \<circ> sub_callback) ` set (filter (\<lambda>sub. sub_name sub = name) (subscribers s))
         \<longleftrightarrow> sub_name (subscribers s ! i) = name"
proof
  assume "i \<in> (cb_f \<circ> sub_callback) ` set (filter (\<lambda>sub. sub_name sub = name) (subscribers s))"
  then obtain sub where sub: "sub \<in> set (subscribers s)" "sub_name sub = name"
      "cb_f (sub_callback sub) = i"
    by auto
  from sub(1) obtain k where k: "k < length (subscribers s)" "subscribers s ! k = sub"
    by (auto simp: in_set_conv_nth)
  have "cb_f (sub_callback (subscribers s ! k)) = k"
    using wired_nth [OF assms(1)] wired_length [OF assms(1)] k(1) by simp
  then have "k = i" using k(2) sub(3) by simp
  then show "sub_name (subscribers s ! i) = name"
    using k(2) sub(2) by simp
next
  assume n: "sub_name (subscribers s ! i) = name"
  have "subscribers s ! i \<in> set (filter (\<lambda>sub. sub_name sub = name) (subscribers s))"
    using n wired_length [OF assms(1)] assms(2) by simp
  moreover have "(cb_f \<circ> sub_callback) (subscribers s ! i) = i"
    using wired_nth [OF assms] by simp
  ultimately show "i \<in> (cb_f \<circ> sub_callback) ` set (filter (\<lambda>sub. sub_name sub = name) (subscribers s))"
    by (metis image_eqI)
qed

lemma receive_eq:
  assumes "wired s"
  shows "\<exists>s'. receive name src_item s = Inr s'
           \<and> loginfo s' = loginfo s \<and> publishers s' = publishers s
           \<and> subscribers s' = subscribers s
           \<and> length (heap s') = length (heap s)
           \<and> (\<forall>i<length (heap s). heap s' ! i =
                 (if sub_name (subscribers s ! i) = name
                  then snd (EWMA_call (heap s ! i) (data src_item)) else heap s ! i))"
proof -
  let ?subs = "filter (\<lambda>sub. sub_name sub = name) (subscribers s)"
  have addrs: "map (cb_f \<circ> sub_callback) (subscribers s) = [0..<length (heap s)]"
    using assms by (simp add: wired_def)
  have "\<forall>sub \<in> set (subscribers s). (cb_f \<circ> sub_callback) sub \<in> set [0..<length (heap s)]"
    using addrs by (metis image_eqI list.set_map)
  then have bound: "\<forall>sub \<in> set ?subs. cb_f (sub_callback sub) < length (heap s)"
    by simp
  have "distinct (map (cb_f \<circ> sub_callback) (subscribers s))"
    using addrs by simp
  then have dist: "distinct (map (cb_f \<circ> sub_callback) ?subs)"
    by (rule distinct_map_filter)
  from run_callbacks_eq [OF bound dist, of src_item] obtain s' where s':
    "run_callbacks ?subs src_item s = Inr s'"
    "loginfo s' = loginfo s" "publishers s' = publishers s"
    "subscribers s' = subscribers s" "length (heap s') = length (heap s)"
    "\<forall>j. heap s' ! j =
       (if j \<in> (cb_f \<circ> sub_callback) ` set ?subs
        then snd (EWMA_call (heap s ! j) (data src_item)) else heap s ! j)"
    by blast
  have "\<forall>i<length (heap s). heap s' ! i =
                 (if sub_name (subscribers s ! i) = name
                  then snd (EWMA_call (heap s ! i) (data src_item)) else heap s ! i)"
    using s'(6) wired_addr_iff [OF assms, of _ name] by simp
  then show ?thesis
    using s'(1-5) by (simp add: receive_def)
qed

lemma rospy_spin_eq:
  assumes "wired s"
  shows "\<exists>s'. rospy_spin arrivals s = Inr s'
           \<and> loginfo s' = loginfo s \<and> publishers s' = publishers s
           \<and> subscribers s' = subscribers s
           \<and> length (heap s') = length (heap s)
           \<and> (\<forall>i<length (heap s). heap s' ! i =
                 EWMA_calls (heap s ! i)
                   (map (\<lambda>arrival. data (snd arrival))
                      (filter (\<lambda>arrival. fst arrival = sub_name (subscribers s ! i)) arrivals)))"
  using assms
proof (induction arrivals arbitrary: s)
  case Nil
  show ?case by simp
next
  case (Cons arrival arrivals)
  obtain name src_item where arrival: "arrival = (name, src_item)"
    by (cases arrival)
  from receive_eq [OF Cons.prems, of name src_item] obtain s1 where s1:
    "receive name src_item s = Inr s1"
    "loginfo s1 = loginfo s" "publishers s1 = publishers s"
    "subscribers s1 = subscribers s" "length (heap s1) = length (heap s)"
    "\<forall>i<length (heap s). heap s1 ! i =
                 (if sub_name (subscribers s ! i) = name
                  then snd (EWMA_call (heap s ! i) (data src_item)) else heap s ! i)"
    by blast
  have "wired s1"
    using Cons.prems s1(4,5) by (simp add: wired_def)
  from Cons.IH [OF this] obtain s' where s':
    "rospy_spin arrivals s1 = Inr s'"
    "loginfo s' = loginfo s1" "publishers s' = publishers s1"
    "subscribers s' = subscribers s1" "length (heap s') = length (heap s1)"
    "\<forall>i<length (heap s1). heap s' ! i =
                 EWMA_calls (heap s1 ! i)
                   (map (\<lambda>arrival. data (snd arrival))
                      (filter (\<lambda>arrival. fst arrival = sub_name (subscribers s1 ! i)) arrivals))"
    by blast
  have "\<forall>i<length (heap s). heap s' ! i =
                 EWMA_calls (heap s ! i)
                   (map (\<lambda>arrival. data (snd arrival))
                      (filter (\<lambda>arrival. fst arrival = sub_name (subscribers s ! i))
                         (arrival # arrivals)))"
    using s'(6) s1(4,5,6) arrival by auto
  then show ?case
    using s1(1-5) s'(1-5) arrival by simp
qed

section \<open>The claims about the relay\<close>

text \<open>
  C2 (as stated, it fails): the claim has \<open>filter_all_variable_topics\<close> return the set
  of bindings it created. For the single variable \<open>air_temperature\<close> one subscriber and
  one publisher are registered, and the value handed back is \<open>None\<close>, not a collection
  holding that pair.
\<close>

theorem filter_all_variable_topics_hands_back_None:
  "fst (filter_all_variable_topics [''air_temperature''] rospy_init_node) = None
   \<and> fst (filter_all_variable_topics [''air_temperature''] rospy_init_node)
       \<noteq> Some [(raw_Subscriber 0 ''air_temperature'', measured_Publisher ''air_temperature'')]
   \<and> subscribers (snd (filter_all_variable_topics [''air_temperature''] rospy_init_node))
       = [raw_Subscriber 0 ''air_temperature'']
   \<and> publishers (snd (filter_all_variable_topics [''air_temperature''] rospy_init_node))
       = [measured_Publisher ''air_temperature'']"
  by (simp add: filter_topic_def rospy_loginfo_def rospy_Publisher_def new_EWMA_def
      rospy_Subscriber_def rospy_init_node_def raw_Subscriber_def measured_Publisher_def Let_def)

text \<open>
  C2 (amended): \<open>filter_all_variable_topics\<close> hands back \<open>None\<close> and keeps no set of
  bindings of its own. What it leaves behind is in the bus: for the variables in order,
  one log line, one publisher on \<open>V/measured\<close>, one fresh filter with coefficient 0.3
  and no average, and one subscriber on \<open>V/raw\<close> whose closure holds that filter and
  that publisher; nothing is published and nothing registered before is touched.
\<close>

theorem filter_all_variable_topics_registers:
  "filter_all_variable_topics variables s =
     (None,
      s\<lparr>loginfo := loginfo s @
           map (\<lambda>v. ''Filtering topic '' @ (v @ ''/raw'') @ '' to topic '' @ (v @ ''/measured'')) variables,
        publishers := publishers s @ map measured_Publisher variables,
        subscribers := subscribers s @
           map (\<lambda>(addr, v). raw_Subscriber addr v) (enumerate (length (heap s)) variables),
        heap := heap s @ replicate (length variables) (EWMA_init (3/10))\<rparr>)"
  by (rule filter_all_variable_topics_eq)

text \<open>
  C4: in any state the program reaches (the variables bound from the initial state, then
  any sequence of arrivals handled), the callback of the \<open>i\<close>-th binding takes the
  \<open>data\<close> of the message, calls that binding's filter (the object at address \<open>i\<close>) on
  it, and publishes the filter's new average as a \<open>Float64\<close> on \<open>V/measured\<close>, \<open>V\<close>
  being the \<open>i\<close>-th variable; nothing else changes. And with the one variable
  \<open>air_temperature\<close>, the samples 10, 20, 20 arriving on \<open>air_temperature/raw\<close> make
  the values 10, 13 and 15.1 go out on \<open>air_temperature/measured\<close>, in this order.
\<close>

theorem callback_relays:
  assumes "rospy_spin arrivals (snd (filter_all_variable_topics variables rospy_init_node)) = Inr s"
      and "i < length variables"
  shows "(\<exists>average.
            self_average (snd (EWMA_call (heap s ! i) (data src_item))) = Some average
            \<and> callback (sub_callback (subscribers s ! i)) src_item s =
                Inr (s\<lparr>heap := (heap s)[i := snd (EWMA_call (heap s ! i) (data src_item))],
                       published := published s @
                         [(variables ! i @ ''/measured'',
                           \<lparr>msg_type = Float64, data = average\<rparr>)]\<rparr>))
         \<and> (\<exists>s'. rospy_spin
                    [(''air_temperature/raw'', \<lparr>msg_type = Float64, data = 10\<rparr>),
                     (''air_temperature/raw'', \<lparr>msg_type = Float64, data = 20\<rparr>),
                     (''air_temperature/raw'', \<lparr>msg_type = Float64, data = 20\<rparr>)]
                    (snd (filter_all_variable_topics [''air_temperature''] rospy_init_node)) = Inr s'
                \<and> published s' =
                    [(''air_temperature/measured'', \<lparr>msg_type = Float64, data = 10\<rparr>),
                     (''air_temperature/measured'', \<lparr>msg_type = Float64, data = 13\<rparr>),
                     (''air_temperature/measured'', \<lparr>msg_type = Float64, data = 151/10\<rparr>)])"
proof
  let ?s0 = "snd (filter_all_variable_topics variables rospy_init_node)"
  from rospy_spin_eq [OF bound_wired, of arrivals variables] assms(1)
  have subs: "subscribers s = subscribers ?s0" and len: "length (heap s) = length (heap ?s0)"
    by auto
  have sub: "subscribers s ! i = raw_Subscriber i (variables ! i)"
    using subs assms(2) by (simp add: bound_subscriber_nth)
  have i: "cb_f (sub_callback (subscribers s ! i)) < length (heap s)"
    using sub len assms(2) by (simp add: bound_fields)
  show "\<exists>average.
            self_average (snd (EWMA_call (heap s ! i) (data src_item))) = Some average
            \<and> callback (sub_callback (subscribers s ! i)) src_item s =
                Inr (s\<lparr>heap := (heap s)[i := snd (EWMA_call (heap s ! i) (data src_item))],
                       published := published s @
                         [(variables ! i @ ''/measured'',
                           \<lparr>msg_type = Float64, data = average\<rparr>)]\<rparr>)"
    using callback_eq [OF i, of src_item] sub by simp
next
  show "\<exists>s'. rospy_spin
                    [(''air_temperature/raw'', \<lparr>msg_type = Float64, data = 10\<rparr>),
                     (''air_temperature/raw'', \<lparr>msg_type = Float64, data = 20\<rparr>),
                     (''air_temperature/raw'', \<lparr>msg_type = Float64, data = 20\<rparr>)]
                    (snd (filter_all_variable_topics [''air_temperature''] rospy_init_node)) = Inr s'
                \<and> published s' =
                    [(''air_temperature/measured'', \<lparr>msg_type = Float64, data = 10\<rparr>),
                     (''air_temperature/measured'', \<lparr>msg_type = Float64, data = 13\<rparr>),
                     (''air_temperature/measured'', \<lparr>msg_type = Float64, data = 151/10\<rparr>)]"
    by (simp add: run_defs)
qed

theorem callback_relays_witness:
  "rospy_spin [] (snd (filter_all_variable_topics [''air_temperature''] rospy_init_node))
     = Inr (snd (filter_all_variable_topics [''air_temperature''] rospy_init_node))
   \<and> (0::nat) < length [''air_temperature'']
   \<and> callback
        (sub_callback
          (subscribers (snd (filter_all_variable_topics [''air_temperature''] rospy_init_node)) ! 0))
        \<lparr>msg_type = Float64, data = 10\<rparr>
        (snd (filter_all_variable_topics [''air_temperature''] rospy_init_node))
      = Inr ((snd (filter_all_variable_topics [''air_temperature''] rospy_init_node))
               \<lparr>heap := [\<lparr>self_a = 3/10, self_average = Some 10\<rparr>],
                published := [(''air_temperature/measured'', \<lparr>msg_type = Float64, data = 10\<rparr>)]\<rparr>)"
  using callback_relays [of "[]" "[''air_temperature'']"
      "snd (filter_all_variable_topics [''air_temperature''] rospy_init_node)" 0
      "\<lparr>msg_type = Float64, data = 10\<rparr>"]
  by (simp add: run_defs)

text \<open>
  C5: for every variable identifier \<open>V\<close> of the input sequence, after
  \<open>filter_all_variable_topics\<close> there is a subscriber on \<open>V/raw\<close> whose callback
  publishes on \<open>V/measured\<close>, and a publisher registered on \<open>V/measured\<close>.
\<close>

theorem channel_names:
  assumes "env_var \<in> set variables"
  shows "(\<exists>sub \<in> set (subscribers (snd (filter_all_variable_topics variables s))).
            sub_name sub = env_var @ ''/raw''
            \<and> pub_name (cb_pub (sub_callback sub)) = env_var @ ''/measured'')
         \<and> (\<exists>pub \<in> set (publishers (snd (filter_all_variable_topics variables s))).
            pub_name pub = env_var @ ''/measured'')"
proof -
  from assms obtain i where i: "i < length variables" "variables ! i = env_var"
    by (auto simp: in_set_conv_nth)
  have "(length (heap s) + i, env_var) \<in> set (enumerate (length (heap s)) variables)"
    using i by (auto simp: in_set_enumerate_eq)
  then have "raw_Subscriber (length (heap s) + i) env_var
      \<in> set (subscribers (snd (filter_all_variable_topics variables s)))"
    by (force simp add: bound_fields)
  moreover have "measured_Publisher env_var
      \<in> set (publishers (snd (filter_all_variable_topics variables s)))"
    using assms by (simp add: bound_fields)
  ultimately show ?thesis
    by (metis raw_Subscriber_fields(1,5) measured_Publisher_fields(1))
qed

theorem channel_names_witness:
  "''air_temperature'' \<in> set [''air_temperature'']
   \<and> (\<exists>sub \<in> set (subscribers (snd (filter_all_variable_topics [''air_temperature''] rospy_init_node))).
            sub_name sub = ''air_temperature/raw''
            \<and> pub_name (cb_pub (sub_callback sub)) = ''air_temperature/measured'')
   \<and> (\<exists>pub \<in> set (publishers (snd (filter_all_variable_topics [''air_temperature''] rospy_init_node))).
            pub_name pub = ''air_temperature/measured'')"
  using channel_names [of "''air_temperature''" "[''air_temperature'']" rospy_init_node]
  by simp

text \<open>
  C7: after the variables have been bound from the initial state, the heap holds one
  filter per variable, each with coefficient 0.3 and no average, and the \<open>i\<close>-th
  subscriber's closure holds the filter at address \<open>i\<close>, so no two closures share a
  filter. A callback changes no filter but its own. Whatever sequence of arrivals is
  handled, in whatever interleaving of topics, the filter of the \<open>i\<close>-th binding ends
  up as a fresh filter called on exactly the samples that arrived on that binding's own
  topic \<open>V/raw\<close>, in their order of arrival, and no arrival raises an error.
\<close>

theorem filters_do_not_interfere:
  "heap (snd (filter_all_variable_topics variables rospy_init_node))
     = replicate (length variables) (EWMA_init (3/10))
   \<and> map (cb_f \<circ> sub_callback)
        (subscribers (snd (filter_all_variable_topics variables rospy_init_node)))
     = [0..<length variables]
   \<and> (\<forall>j. callback env src_item s = Inr s1 \<and> j \<noteq> cb_f env \<longrightarrow> heap s1 ! j = heap s ! j)
   \<and> (\<exists>s'. rospy_spin arrivals (snd (filter_all_variable_topics variables rospy_init_node)) = Inr s'
          \<and> length (heap s') = length variables
          \<and> (\<forall>i<length variables.
                heap s' ! i =
                  EWMA_calls (EWMA_init (3/10))
                    (map (\<lambda>arrival. data (snd arrival))
                       (filter (\<lambda>arrival. fst arrival = variables ! i @ ''/raw'') arrivals))))"
proof -
  let ?s0 = "snd (filter_all_variable_topics variables rospy_init_node)"
  have heap0: "heap ?s0 = replicate (length variables) (EWMA_init (3/10))"
    by (simp add: bound_fields)
  from rospy_spin_eq [OF bound_wired, of arrivals variables] obtain s' where s':
    "rospy_spin arrivals ?s0 = Inr s'" "length (heap s') = length (heap ?s0)"
    "\<forall>i<length (heap ?s0). heap s' ! i =
                 EWMA_calls (heap ?s0 ! i)
                   (map (\<lambda>arrival. data (snd arrival))
                      (filter (\<lambda>arrival. fst arrival = sub_name (subscribers ?s0 ! i)) arrivals))"
    by blast
  have "\<forall>i<length variables.
                heap s' ! i =
                  EWMA_calls (EWMA_init (3/10))
                    (map (\<lambda>arrival. data (snd arrival))
                       (filter (\<lambda>arrival. fst arrival = variables ! i @ ''/raw'') arrivals))"
    using s'(3) heap0 by (simp add: bound_subscriber_nth)
  then show ?thesis
    using heap0 bound_addrs [of variables] s'(1,2) callback_frame [of env src_item s s1]
    by auto
qed

theorem filters_do_not_interfere_witness:
  "(\<exists>s1. callback (sub_callback (raw_Subscriber 0 ''A'')) \<lparr>msg_type = Float64, data = 5\<rparr>
            (snd (filter_all_variable_topics [''A'', ''B''] rospy_init_node)) = Inr s1
          \<and> (1::nat) \<noteq> cb_f (sub_callback (raw_Subscriber 0 ''A''))
          \<and> heap s1 ! 1 = heap (snd (filter_all_variable_topics [''A'', ''B''] rospy_init_node)) ! 1
          \<and> self_average (heap s1 ! 0) = Some 5)
   \<and> (\<exists>s'. rospy_spin
             [(''A/raw'', \<lparr>msg_type = Float64, data = 5\<rparr>),
              (''B/raw'', \<lparr>msg_type = Float64, data = 100\<rparr>),
              (''A/raw'', \<lparr>msg_type = Float64, data = 7\<rparr>)]
             (snd (filter_all_variable_topics [''A'', ''B''] rospy_init_node)) = Inr s'
          \<and> (0::nat) < length [''A'', ''B''] \<and> (1::nat) < length [''A'', ''B'']
          \<and> self_average (heap s' ! 0) = Some (28/5)
          \<and> self_average (heap s' ! 1) = Some 100)"
proof -
  let ?s0 = "snd (filter_all_variable_topics [''A'', ''B''] rospy_init_node)"
  let ?env = "sub_callback (raw_Subscriber 0 ''A'')"
  let ?m = "\<lparr>msg_type = Float64, data = 5\<rparr>"
  let ?arrivals = "[(''A/raw'', \<lparr>msg_type = Float64, data = 5\<rparr>),
              (''B/raw'', \<lparr>msg_type = Float64, data = 100\<rparr>),
              (''A/raw'', \<lparr>msg_type = Float64, data = 7\<rparr>)]"
  obtain s1 where s1: "callback ?env ?m ?s0 = Inr s1" "self_average (heap s1 ! 0) = Some 5"
    by (simp add: run_defs)
  note inst = filters_do_not_interfere [of "[''A'', ''B'']" ?env ?m ?s0 s1 ?arrivals]
  from inst s1(1) have frame: "heap s1 ! 1 = heap ?s0 ! 1"
    by simp
  from inst obtain s' where s': "rospy_spin ?arrivals ?s0 = Inr s'"
    "\<forall>i<length [''A'', ''B''].
                heap s' ! i =
                  EWMA_calls (EWMA_init (3/10))
                    (map (\<lambda>arrival. data (snd arrival))
                       (filter (\<lambda>arrival. fst arrival = [''A'', ''B''] ! i @ ''/raw'') ?arrivals))"
    by blast
  from s'(2) have "heap s' ! 0 = EWMA_calls (EWMA_init (3/10)) [5, 7]"
    by simp
  moreover from s'(2) have "heap s' ! 1 = EWMA_calls (EWMA_init (3/10)) [100]"
    by simp
  ultimately have "self_average (heap s' ! 0) = Some (28/5)" "self_average (heap s' ! 1) = Some 100"
    by simp_all
  then show ?thesis
    using s1 frame s'(1) by simp
qed

text \<open>
  C8: with an empty sequence of variables the loop body is never entered: the function
  hands back \<open>None\<close> and the state is the one it was given, so from the initial state
  there is no subscriber, no publisher and no filter, and any sequence of arrivals is
  handled without error and without a publication.
\<close>

theorem empty_variables_bind_nothing:
  "filter_all_variable_topics [] s = (None, s)
   \<and> subscribers (snd (filter_all_variable_topics [] rospy_init_node)) = []
   \<and> publishers (snd (filter_all_variable_topics [] rospy_init_node)) = []
   \<and> heap (snd (filter_all_variable_topics [] rospy_init_node)) = []
   \<and> rospy_spin arrivals (snd (filter_all_variable_topics [] rospy_init_node))
       = Inr rospy_init_node"
proof -
  have "rospy_spin arrivals rospy_init_node = Inr rospy_init_node"
    by (induction arrivals) (auto simp add: receive_def)
  then show ?thesis by simp
qed

section \<open>The filter in binary64: a constant input\<close>

subsection \<open>The error of one rounding\<close>

lemma dval_shift: "dval (m * 2 ^ k, e) = dval (m, e + int k)"
  by (simp add: dval_def power_int_add)

lemma nearest_int_error:
  fixes A :: int and k :: nat
  assumes "0 < k" "0 \<le> A"
  defines "q \<equiv> A div 2 ^ k" and "r \<equiv> A mod 2 ^ k" and "half \<equiv> (2::int) ^ (k - 1)"
  shows "\<bar>(if half < r \<or> (r = half \<and> odd q) then q + 1 else q) * 2 ^ k - A\<bar> \<le> half"
proof -
  have P: "(2::int) ^ k = 2 * half"
    using assms(1) by (simp add: half_def power_eq_if)
  have A: "A = q * 2 ^ k + r"
    unfolding q_def r_def by (rule div_mult_mod_eq [symmetric])
  have r: "0 \<le> r" "r < 2 ^ k"
    by (simp_all add: r_def)
  show ?thesis
  proof (cases "half < r \<or> (r = half \<and> odd q)")
    case True
    then have "(q + 1) * 2 ^ k - A = 2 ^ k - r" "half \<le> r"
      using A by (auto simp: algebra_simps)
    then show ?thesis using True r P by auto
  next
    case False
    then have "q * 2 ^ k - A = - r" "r \<le> half"
      using A by auto
    then show ?thesis using False r by auto
  qed
qed

lemma nearest53_error: "\<bar>dval (nearest53 x) - dval x\<bar> \<le> \<bar>dval x\<bar> / 2 ^ 53"
proof -
  obtain m e where x: "x = (m, e)" by (cases x)
  let ?n = "bitlen \<bar>m\<bar>"
  show ?thesis
  proof (cases "?n \<le> 53")
    case True
    then show ?thesis by (simp add: nearest53_def x Let_def)
  next
    case False
    define k where "k = nat (?n - 53)"
    define A where "A = \<bar>m\<bar>"
    define q' where "q' = (if 2 ^ (k - 1) < A mod 2 ^ k \<or> (A mod 2 ^ k = 2 ^ (k - 1) \<and> odd (A div 2 ^ k))
                            then A div 2 ^ k + 1 else A div 2 ^ k)"
    have k: "0 < k" "int k = ?n - 53"
      using False by (simp_all add: k_def)
    have Apos: "0 < A"
      using False bitlen_eq_zero_iff [of "\<bar>m\<bar>"] by (auto simp: A_def)
    have near: "\<bar>q' * 2 ^ k - A\<bar> \<le> 2 ^ (k - 1)"
      unfolding q'_def using nearest_int_error [OF k(1), of A] Apos by simp
    have res: "nearest53 x = (sgn m * q', e + int k)"
      using False by (simp add: nearest53_def x Let_def k_def A_def q'_def)
    have m: "m = sgn m * A"
      by (simp add: A_def sgn_mult_abs)
    have sgn1: "\<bar>real_of_int (sgn m)\<bar> = 1"
      using Apos by (auto simp: A_def sgn_if)
    have p: "(2::real) powi (e + int k) = 2 powi e * 2 ^ k"
      by (simp add: power_int_add)
    have d1: "dval (nearest53 x) = of_int (sgn m) * (of_int q' * 2 ^ k) * 2 powi e"
      by (simp add: res dval_def p)
    have "real_of_int m = of_int (sgn m) * of_int A"
      using m by (metis of_int_mult)
    then have d2: "dval x = of_int (sgn m) * of_int A * 2 powi e"
      by (simp add: x dval_def)
    have "dval (nearest53 x) - dval x
            = of_int (sgn m) * of_int (q' * 2 ^ k - A) * 2 powi e"
      unfolding d1 d2 by (simp add: algebra_simps)
    then have lhs: "\<bar>dval (nearest53 x) - dval x\<bar> = of_int \<bar>q' * 2 ^ k - A\<bar> * 2 powi e"
      using sgn1 by (simp add: abs_mult)
    have "2 ^ nat (?n - 1) \<le> A"
      using bitlen_bounds [of A] Apos by (simp add: A_def)
    moreover have "nat (?n - 1) = k + 52"
      using k(2) False by simp
    ultimately have "(2::int) ^ (k + 52) \<le> A" by simp
    then have "(2::real) ^ (k + 52) \<le> of_int A"
      by (metis of_int_le_iff of_int_numeral of_int_power)
    then have "(2::real) ^ (k - 1) * 2 ^ 53 \<le> of_int A"
      using k(1) by (simp add: power_eq_if [of _ k] power_add)
    then have "(2::real) ^ (k - 1) \<le> of_int A / 2 ^ 53"
      by (simp add: pos_le_divide_eq)
    moreover have "real_of_int \<bar>q' * 2 ^ k - A\<bar> \<le> 2 ^ (k - 1)"
      using near by (metis of_int_le_iff of_int_numeral of_int_power)
    ultimately have "real_of_int \<bar>q' * 2 ^ k - A\<bar> \<le> of_int A / 2 ^ 53"
      by linarith
    then have "real_of_int \<bar>q' * 2 ^ k - A\<bar> * 2 powi e \<le> of_int A / 2 ^ 53 * 2 powi e"
      by (intro mult_right_mono) simp_all
    moreover have "\<bar>dval x\<bar> = of_int A * 2 powi e"
      by (simp add: x dval_def abs_mult A_def)
    ultimately show ?thesis
      using lhs by simp
  qed
qed


lemma fl_error: "fl x = Some d \<Longrightarrow> \<bar>dval d - dval x\<bar> \<le> \<bar>dval x\<bar> / 2 ^ 53"
  using nearest53_error [of x] by (auto simp: fl_def Let_def split: if_splits)

lemma dval_mult: "dval (fst x * fst y, snd x + snd y) = dval x * dval y"
  by (simp add: dval_def power_int_add)

lemma dval_align: "e \<le> snd x \<Longrightarrow> dval (fst x * 2 ^ nat (snd x - e), e) = dval x"
  by (simp add: dval_shift)

lemma dval_plus: "dval (m1 + m2, e) = dval (m1, e) + dval (m2, e)"
  by (simp add: dval_def algebra_simps)

lemma dval_minus: "dval (m1 - m2, e) = dval (m1, e) - dval (m2, e)"
  by (simp add: dval_def algebra_simps)

lemma double_mul_error:
  "double_mul x y = Some d \<Longrightarrow> \<bar>dval d - dval x * dval y\<bar> \<le> \<bar>dval x * dval y\<bar> / 2 ^ 53"
  using fl_error [of "(fst x * fst y, snd x + snd y)" d] by (simp add: double_mul_def dval_mult)

lemma double_add_error:
  "double_add x y = Some d \<Longrightarrow> \<bar>dval d - (dval x + dval y)\<bar> \<le> \<bar>dval x + dval y\<bar> / 2 ^ 53"
  using fl_error [of "(fst x * 2 ^ nat (snd x - min (snd x) (snd y))
                        + fst y * 2 ^ nat (snd y - min (snd x) (snd y)), min (snd x) (snd y))" d]
  by (simp add: double_add_def Let_def dval_plus dval_align)

lemma double_sub_error:
  "double_sub x y = Some d \<Longrightarrow> \<bar>dval d - (dval x - dval y)\<bar> \<le> \<bar>dval x - dval y\<bar> / 2 ^ 53"
  using fl_error [of "(fst x * 2 ^ nat (snd x - min (snd x) (snd y))
                        - fst y * 2 ^ nat (snd y - min (snd x) (snd y)), min (snd x) (snd y))" d]
  by (simp add: double_sub_def Let_def dval_minus dval_align)

lemma rounded_update_bound:
  fixes a c t1 b t2 r u :: real
  assumes u: "0 \<le> u"
      and t1: "\<bar>t1 - a * c\<bar> \<le> u * \<bar>a * c\<bar>"
      and b: "\<bar>b - (1 - a)\<bar> \<le> u * \<bar>1 - a\<bar>"
      and t2: "\<bar>t2 - b * c\<bar> \<le> u * \<bar>b * c\<bar>"
      and r: "\<bar>r - (t1 + t2)\<bar> \<le> u * \<bar>t1 + t2\<bar>"
  shows "\<bar>r - c\<bar> \<le> ((2 * u + u\<^sup>2) * (\<bar>a\<bar> + \<bar>1 - a\<bar>) * (1 + u) + u) * \<bar>c\<bar>"
proof -
  define E where "E = (2 * u + u\<^sup>2) * (\<bar>a\<bar> + \<bar>1 - a\<bar>)"
  have E0: "0 \<le> E"
    using u by (simp add: E_def)
  have "\<bar>b\<bar> \<le> \<bar>b - (1 - a)\<bar> + \<bar>1 - a\<bar>"
    by linarith
  then have babs: "\<bar>b\<bar> \<le> (1 + u) * \<bar>1 - a\<bar>"
    using b by (simp add: algebra_simps)
  have "u * \<bar>b * c\<bar> = u * \<bar>c\<bar> * \<bar>b\<bar>"
    by (simp add: abs_mult)
  also have "\<dots> \<le> u * \<bar>c\<bar> * ((1 + u) * \<bar>1 - a\<bar>)"
    using babs u by (intro mult_left_mono) simp_all
  finally have t2a: "\<bar>t2 - b * c\<bar> \<le> u * \<bar>c\<bar> * ((1 + u) * \<bar>1 - a\<bar>)"
    using t2 by linarith
  have "\<bar>b * c - (1 - a) * c\<bar> = \<bar>b - (1 - a)\<bar> * \<bar>c\<bar>"
    by (simp add: abs_mult left_diff_distrib [symmetric])
  also have "\<dots> \<le> u * \<bar>1 - a\<bar> * \<bar>c\<bar>"
    using b by (intro mult_right_mono) simp_all
  finally have t2b: "\<bar>b * c - (1 - a) * c\<bar> \<le> u * \<bar>1 - a\<bar> * \<bar>c\<bar>" .
  have "\<bar>t2 - (1 - a) * c\<bar> \<le> \<bar>t2 - b * c\<bar> + \<bar>b * c - (1 - a) * c\<bar>"
    by linarith
  then have t2c: "\<bar>t2 - (1 - a) * c\<bar> \<le> (2 * u + u\<^sup>2) * \<bar>1 - a\<bar> * \<bar>c\<bar>"
    using t2a t2b by (simp add: algebra_simps power2_eq_square)
  have "u * \<bar>a\<bar> * \<bar>c\<bar> \<le> (2 * u + u\<^sup>2) * \<bar>a\<bar> * \<bar>c\<bar>"
    using u by (intro mult_right_mono) simp_all
  then have t1a: "\<bar>t1 - a * c\<bar> \<le> (2 * u + u\<^sup>2) * \<bar>a\<bar> * \<bar>c\<bar>"
    using t1 by (simp add: abs_mult)
  have "t1 + t2 - c = (t1 - a * c) + (t2 - (1 - a) * c)"
    by (simp add: algebra_simps)
  then have "\<bar>t1 + t2 - c\<bar> \<le> \<bar>t1 - a * c\<bar> + \<bar>t2 - (1 - a) * c\<bar>"
    by linarith
  then have s: "\<bar>t1 + t2 - c\<bar> \<le> E * \<bar>c\<bar>"
    using t1a t2c by (simp add: E_def algebra_simps)
  have "\<bar>t1 + t2\<bar> \<le> \<bar>c\<bar> + \<bar>t1 + t2 - c\<bar>"
    by linarith
  then have "\<bar>t1 + t2\<bar> \<le> \<bar>c\<bar> + E * \<bar>c\<bar>"
    using s by linarith
  then have "u * \<bar>t1 + t2\<bar> \<le> u * (\<bar>c\<bar> + E * \<bar>c\<bar>)"
    using u by (intro mult_left_mono) simp_all
  then have "\<bar>r - (t1 + t2)\<bar> \<le> u * (\<bar>c\<bar> + E * \<bar>c\<bar>)"
    using r by linarith
  moreover have "\<bar>r - c\<bar> \<le> \<bar>r - (t1 + t2)\<bar> + \<bar>t1 + t2 - c\<bar>"
    by linarith
  ultimately have "\<bar>r - c\<bar> \<le> u * (\<bar>c\<bar> + E * \<bar>c\<bar>) + E * \<bar>c\<bar>"
    using s by linarith
  also have "\<dots> = (E * (1 + u) + u) * \<bar>c\<bar>"
    by (simp add: algebra_simps)
  finally show ?thesis
    by (simp add: E_def)
qed

subsection \<open>The update on a constant input\<close>

lemma EWMA64_call_example:
  "EWMA64_call \<lparr>self_a64 = (5404319552844595, - 54),
                 self_average64 = Some (7205759403792794, - 56)\<rparr> (7205759403792794, - 56)
     = Inr (None, \<lparr>self_a64 = (5404319552844595, - 54),
                   self_average64 = Some (7205759403792793, - 56)\<rparr>)"
  by code_simp

lemma literals_are_doubles:
  "is_double (5404319552844595, - 54)" "is_double (7205759403792794, - 56)"
  by code_simp+

text \<open>
  C10 (as stated, it fails): the claim makes a constant input an exact fixed point for
  every coefficient and value. The program computes in binary64. With the coefficient
  \<open>0.3\<close> and the stored average \<open>0.1\<close>, both genuine doubles (each the one nearest to
  its literal), the update on the sample \<open>0.1\<close> stores \<open>7205759403792793 * 2^(-56)\<close>,
  which prints as \<open>0.09999999999999999\<close> and is not \<open>0.1\<close>.
\<close>

theorem EWMA64_constant_not_fixed:
  "is_double (5404319552844595, - 54) \<and> \<bar>dval (5404319552844595, - 54) - 3 / 10\<bar> \<le> 1 / 2 ^ 55
   \<and> is_double (7205759403792794, - 56) \<and> \<bar>dval (7205759403792794, - 56) - 1 / 10\<bar> \<le> 1 / 2 ^ 57
   \<and> EWMA64_call \<lparr>self_a64 = (5404319552844595, - 54),
                   self_average64 = Some (7205759403792794, - 56)\<rparr> (7205759403792794, - 56)
       = Inr (None, \<lparr>self_a64 = (5404319552844595, - 54),
                     self_average64 = Some (7205759403792793, - 56)\<rparr>)
   \<and> dval (7205759403792793, - 56) \<noteq> dval (7205759403792794, - 56)"
  using EWMA64_call_example literals_are_doubles by (simp add: dval_def)

text \<open>
  C10 (amended): a constant input is a fixed point up to rounding. If the stored average
  of a filter is \<open>c\<close> and the binary64 update on the sample \<open>c\<close> stays in the normal
  range, the new average \<open>r\<close> satisfies
  \<open>\<bar>r - c\<bar> \<le> ((2u + u^2) * (\<bar>a\<bar> + \<bar>1 - a\<bar>) * (1 + u) + u) * \<bar>c\<bar>\<close>, where \<open>a\<close> is the
  coefficient and \<open>u = 2^(-53)\<close>, for every coefficient and every \<open>c\<close>. Over exact real
  arithmetic on the same two numbers the update gives \<open>c\<close> itself.
\<close>

theorem EWMA64_constant_within_rounding:
  assumes "self_average64 self = Some c"
      and "EWMA64_call self c = Inr (ret, self')"
  shows "self_average
           (snd (EWMA_call \<lparr>self_a = dval (self_a64 self), self_average = Some (dval c)\<rparr> (dval c)))
         = Some (dval c)
       \<and> (\<exists>r. self_average64 self' = Some r
             \<and> \<bar>dval r - dval c\<bar>
                 \<le> ((2 * unit_roundoff + unit_roundoff\<^sup>2)
                      * (\<bar>dval (self_a64 self)\<bar> + \<bar>1 - dval (self_a64 self)\<bar>)
                      * (1 + unit_roundoff) + unit_roundoff) * \<bar>dval c\<bar>)"
proof
  show "self_average
           (snd (EWMA_call \<lparr>self_a = dval (self_a64 self), self_average = Some (dval c)\<rparr> (dval c)))
         = Some (dval c)"
    by (simp add: algebra_simps)
next
  let ?a = "self_a64 self"
  from assms obtain t1 b t2 r where ops:
    "double_mul ?a c = Some t1" "double_sub (1, 0) ?a = Some b"
    "double_mul b c = Some t2" "double_add t1 t2 = Some r"
    "self_average64 self' = Some r"
    by (auto simp: EWMA64_call_def split: option.splits)
  have one: "dval (1, 0) = 1"
    by (simp add: dval_def)
  have "\<bar>dval t1 - dval ?a * dval c\<bar> \<le> unit_roundoff * \<bar>dval ?a * dval c\<bar>"
    using double_mul_error [OF ops(1)] by (simp add: unit_roundoff_def)
  moreover have "\<bar>dval b - (1 - dval ?a)\<bar> \<le> unit_roundoff * \<bar>1 - dval ?a\<bar>"
    using double_sub_error [OF ops(2)] by (simp add: unit_roundoff_def one)
  moreover have "\<bar>dval t2 - dval b * dval c\<bar> \<le> unit_roundoff * \<bar>dval b * dval c\<bar>"
    using double_mul_error [OF ops(3)] by (simp add: unit_roundoff_def)
  moreover have "\<bar>dval r - (dval t1 + dval t2)\<bar> \<le> unit_roundoff * \<bar>dval t1 + dval t2\<bar>"
    using double_add_error [OF ops(4)] by (simp add: unit_roundoff_def)
  moreover have "0 \<le> unit_roundoff"
    by (simp add: unit_roundoff_def)
  ultimately have "\<bar>dval r - dval c\<bar>
                 \<le> ((2 * unit_roundoff + unit_roundoff\<^sup>2)
                      * (\<bar>dval ?a\<bar> + \<bar>1 - dval ?a\<bar>)
                      * (1 + unit_roundoff) + unit_roundoff) * \<bar>dval c\<bar>"
    by (intro rounded_update_bound [where ?t1.0 = "dval t1" and b = "dval b" and ?t2.0 = "dval t2"])
  then show "\<exists>r. self_average64 self' = Some r
             \<and> \<bar>dval r - dval c\<bar>
                 \<le> ((2 * unit_roundoff + unit_roundoff\<^sup>2)
                      * (\<bar>dval (self_a64 self)\<bar> + \<bar>1 - dval (self_a64 self)\<bar>)
                      * (1 + unit_roundoff) + unit_roundoff) * \<bar>dval c\<bar>"
    using ops(5) by blast
qed

theorem EWMA64_constant_within_rounding_witness:
  "self_average64 \<lparr>self_a64 = (5404319552844595, - 54),
                   self_average64 = Some (7205759403792794, - 56)\<rparr>
     = Some (7205759403792794, - 56)
   \<and> EWMA64_call \<lparr>self_a64 = (5404319552844595, - 54),
                   self_average64 = Some (7205759403792794, - 56)\<rparr> (7205759403792794, - 56)
       = Inr (None, \<lparr>self_a64 = (5404319552844595, - 54),
                     self_average64 = Some (7205759403792793, - 56)\<rparr>)
   \<and> \<bar>dval (7205759403792793, - 56) - dval (7205759403792794, - 56)\<bar>
       \<le> ((2 * unit_roundoff + unit_roundoff\<^sup>2)
            * (\<bar>dval (5404319552844595, - 54)\<bar> + \<bar>1 - dval (5404319552844595, - 54)\<bar>)
            * (1 + unit_roundoff) + unit_roundoff) * \<bar>dval (7205759403792794, - 56)\<bar>"
  using EWMA64_constant_within_rounding
    [of "\<lparr>self_a64 = (5404319552844595, - 54),
          self_average64 = Some (7205759403792794, - 56)\<rparr>"
        "(7205759403792794, - 56)" None
        "\<lparr>self_a64 = (5404319552844595, - 54),
          self_average64 = Some (7205759403792793, - 56)\<rparr>"]
    EWMA64_call_example
  by simp

end
